theory Spec2Isabelle
  imports Main
begin

unbundle bit_operations_syntax

section \<open>Python values, exceptions and list indexing\<close>

text \<open>
  The interpreter is the Python class \<open>Chip8\<close> of \<open>chip8/chip8.py\<close>. Its fields are
  unbounded Python integers and Python lists; a handler mutates \<open>self\<close> and may raise.
  Here a handler is a function from the state to \<open>error + chip8\<close>: \<open>Inr\<close> carries the
  state after a normal return, \<open>Inl\<close> the exception that left the handler.

  \<^item> \<open>IndexError\<close>: a list subscript out of range.
  \<^item> \<open>TypeError\<close>: calling an object that is not callable (the statement
    \<open>NotImplemented()\<close> of the TODO stubs: \<open>NotImplemented\<close> is a constant, not a
    function).
  \<^item> \<open>SystemExit\<close>: what the builtin \<open>quit()\<close> raises to end the process.
  \<^item> \<open>OverflowError\<close>: a true division of ints whose quotient is beyond every double.

  Calls of \<open>logger\<close> write a log line and change nothing of the state; they are left out.
\<close>

datatype error = IndexError | TypeError | SystemExit | OverflowError

definition and_then :: "error + 'a \<Rightarrow> ('a \<Rightarrow> error + 'b) \<Rightarrow> error + 'b" where
  "and_then m f = (case m of Inl e \<Rightarrow> Inl e | Inr x \<Rightarrow> f x)"

text \<open>
  A subscript \<open>xs[i]\<close> of a list of length \<open>n\<close> accepts \<open>-n \<le> i < n\<close>; a negative
  \<open>i\<close> addresses position \<open>n + i\<close>; anything else raises IndexError.
\<close>

definition list_position :: "nat \<Rightarrow> int \<Rightarrow> error + nat" where
  "list_position n i =
     (if 0 \<le> i then (if i < int n then Inr (nat i) else Inl IndexError)
      else (if - int n \<le> i then Inr (nat (int n + i)) else Inl IndexError))"

definition getitem :: "'a list \<Rightarrow> int \<Rightarrow> error + 'a" where
  "getitem xs i = and_then (list_position (length xs) i) (\<lambda>k. Inr (xs ! k))"

definition setitem :: "'a list \<Rightarrow> int \<Rightarrow> 'a \<Rightarrow> error + 'a list" where
  "setitem xs i v = and_then (list_position (length xs) i) (\<lambda>k. Inr (xs[k := v]))"

text \<open>
  A memory cell holds whatever Python number was stored into it. \<open>load_bcd\<close> divides
  with \<open>/\<close>, which in Python 3 yields a float for every pair of ints, so a cell is
  either an int or a float. The value of a float is not tracked: \<open>PyFloat\<close> stands for
  any float.

  \<open>n / 10\<close> on an int is the double nearest to the quotient (ties to even). The
  largest double is \<open>2 ^ 1024 - 2 ^ 971\<close>; a quotient of magnitude
  \<open>2 ^ 1024 - 2 ^ 970\<close> or more rounds to \<open>2 ^ 1024\<close>, and Python raises
  OverflowError. On a float, \<open>/ 10\<close> and \<open>% 10\<close> never raise.
\<close>

datatype pynum = PyInt int | PyFloat

fun mod10 :: "pynum \<Rightarrow> pynum" where
  "mod10 (PyInt n) = PyInt (n mod 10)"
| "mod10 PyFloat = PyFloat"

fun truediv10 :: "pynum \<Rightarrow> error + pynum" where
  "truediv10 (PyInt n) =
     (if 10 * (2 ^ 1024 - 2 ^ 970) \<le> \<bar>n\<bar> then Inl OverflowError else Inr PyFloat)"
| "truediv10 PyFloat = Inr PyFloat"

section \<open>The interpreter state\<close>

text \<open>
  The fields of \<open>Chip8.__init__\<close>, in its order. \<open>draw_flag\<close> starts as the int 0 and is
  later assigned \<open>True\<close> and \<open>False\<close>; it is only ever tested for truth, so it is a
  bool here (0 is False). \<open>display\<close> is \<open>np.zeros((32, 64))\<close>, 32 rows of 64 zeros.
\<close>

record chip8 =
  program_counter :: int
  stack_pointer :: int
  address_register :: int
  registers :: "int list"
  memory :: "pynum list"
  stack :: "int list"
  delay_timer :: int
  sound_timer :: int
  draw_flag :: bool
  display :: "int list list"

definition font :: "int list" where
  "font = [0xF0, 0x90, 0x90, 0x90, 0xF0,
           0x20, 0x60, 0x20, 0x20, 0x70,
           0xF0, 0x10, 0xF0, 0x80, 0xF0,
           0xF0, 0x10, 0xF0, 0x10, 0xF0,
           0xA0, 0xA0, 0xF0, 0x20, 0x20,
           0xF0, 0x80, 0xF0, 0x10, 0xF0,
           0xF0, 0x80, 0xF0, 0x90, 0xF0,
           0xF0, 0x10, 0x20, 0x40, 0x40,
           0xF0, 0x90, 0xF0, 0x90, 0xF0,
           0xF0, 0x90, 0xF0, 0x10, 0xF0,
           0xF0, 0x90, 0xF0, 0x90, 0x90,
           0xE0, 0x90, 0xE0, 0x90, 0xE0,
           0xF0, 0x80, 0x80, 0x80, 0xF0,
           0xE0, 0x90, 0x90, 0x90, 0xE0,
           0xF0, 0x80, 0xF0, 0x80, 0xF0,
           0xF0, 0x80, 0xF0, 0x80, 0x80]"

text \<open>\<open>self.memory[:len(font)] = font\<close>: the first \<open>len(font)\<close> cells are replaced.\<close>

definition load_font :: "chip8 \<Rightarrow> chip8" where
  "load_font s = s\<lparr>memory := map PyInt font @ drop (length font) (memory s)\<rparr>"

definition new_chip8 :: chip8 where
  "new_chip8 = load_font
     \<lparr>program_counter = 0x200,
      stack_pointer = 0,
      address_register = 0x000,
      registers = replicate 16 0,
      memory = replicate 4096 (PyInt 0),
      stack = replicate 16 0,
      delay_timer = 0,
      sound_timer = 0,
      draw_flag = False,
      display = replicate 32 (replicate 64 0)\<rparr>"

section \<open>Control flow: 00EE, 1nnn, 2nnn and the skips\<close>

text \<open>
  \<open>ret\<close>: the stack pointer is decremented first; below zero the handler logs and
  calls \<open>quit()\<close>. Otherwise the program counter is the stack entry plus 2.
\<close>

definition ret :: "chip8 \<Rightarrow> error + chip8" where
  "ret s =
     (let sp = stack_pointer s - 1 in
      if sp < 0 then Inl SystemExit
      else and_then (getitem (stack s) sp) (\<lambda>a.
        Inr (s\<lparr>stack_pointer := sp, program_counter := a + 2\<rparr>)))"

text \<open>\<open>jump\<close>: the program counter is set, then a value above 4028 logs and quits.\<close>

definition jump :: "int \<Rightarrow> chip8 \<Rightarrow> error + chip8" where
  "jump nnn s = (if nnn > 4028 then Inl SystemExit else Inr (s\<lparr>program_counter := nnn\<rparr>))"

text \<open>
  \<open>call\<close>: the current program counter is written to \<open>stack[stack_pointer]\<close>, the
  program counter is set and the stack pointer incremented. Its two range tests
  (\<open>program_counter > 4028\<close>, \<open>stack_pointer > len(stack)\<close>) only log.
\<close>

definition call :: "int \<Rightarrow> chip8 \<Rightarrow> error + chip8" where
  "call nnn s =
     and_then (setitem (stack s) (stack_pointer s) (program_counter s)) (\<lambda>st.
       Inr (s\<lparr>stack := st, program_counter := nnn, stack_pointer := stack_pointer s + 1\<rparr>))"

text \<open>The skips add 2 when their test holds, and then 2 in every case.\<close>

definition skip_if :: "int \<Rightarrow> int \<Rightarrow> chip8 \<Rightarrow> error + chip8" where
  "skip_if vx kk s =
     and_then (getitem (registers s) vx) (\<lambda>a.
       let pc = (if a = kk then program_counter s + 2 else program_counter s)
       in Inr (s\<lparr>program_counter := pc + 2\<rparr>))"

definition skip_if_not :: "int \<Rightarrow> int \<Rightarrow> chip8 \<Rightarrow> error + chip8" where
  "skip_if_not vx kk s =
     and_then (getitem (registers s) vx) (\<lambda>a.
       let pc = (if a \<noteq> kk then program_counter s + 2 else program_counter s)
       in Inr (s\<lparr>program_counter := pc + 2\<rparr>))"

definition skip_if_xy :: "int \<Rightarrow> int \<Rightarrow> chip8 \<Rightarrow> error + chip8" where
  "skip_if_xy vx vy s =
     and_then (getitem (registers s) vx) (\<lambda>a.
     and_then (getitem (registers s) vy) (\<lambda>b.
       let pc = (if a = b then program_counter s + 2 else program_counter s)
       in Inr (s\<lparr>program_counter := pc + 2\<rparr>)))"

definition skip_if_not_xy :: "int \<Rightarrow> int \<Rightarrow> chip8 \<Rightarrow> error + chip8" where
  "skip_if_not_xy vx vy s =
     and_then (getitem (registers s) vx) (\<lambda>a.
     and_then (getitem (registers s) vy) (\<lambda>b.
       let pc = (if a \<noteq> b then program_counter s + 2 else program_counter s)
       in Inr (s\<lparr>program_counter := pc + 2\<rparr>)))"

section \<open>Arithmetic: 7xkk, 8xy4, 8xy5, 8xy7, 8xyE\<close>

text \<open>\<open>add\<close>: \<open>self.registers[vx] += kk\<close>, a read, an addition of Python ints, a write.\<close>

definition add :: "int \<Rightarrow> int \<Rightarrow> chip8 \<Rightarrow> error + chip8" where
  "add vx kk s =
     and_then (getitem (registers s) vx) (\<lambda>a.
     and_then (setitem (registers s) vx (a + kk)) (\<lambda>r.
       Inr (s\<lparr>registers := r, program_counter := program_counter s + 2\<rparr>)))"

text \<open>
  \<open>add_xy\<close>: the sum is computed first, then \<open>registers[0xF]\<close> is written, then
  \<open>registers[vx]\<close> receives the sum as it is.
\<close>

definition add_xy :: "int \<Rightarrow> int \<Rightarrow> chip8 \<Rightarrow> error + chip8" where
  "add_xy vx vy s =
     and_then (getitem (registers s) vx) (\<lambda>a.
     and_then (getitem (registers s) vy) (\<lambda>b.
       let num = a + b in
       and_then (setitem (registers s) 0xF (if num > 255 then 1 else 0)) (\<lambda>r1.
       and_then (setitem r1 vx num) (\<lambda>r2.
         Inr (s\<lparr>registers := r2, program_counter := program_counter s + 2\<rparr>)))))"

text \<open>
  \<open>sub_xy\<close> and \<open>sub_yx\<close>: the comparison reads both registers and writes
  \<open>registers[0xF]\<close>; the subtraction then reads both registers again, from the list
  as the flag write left it, and writes \<open>registers[vx]\<close>.
\<close>

definition sub_xy :: "int \<Rightarrow> int \<Rightarrow> chip8 \<Rightarrow> error + chip8" where
  "sub_xy vx vy s =
     and_then (getitem (registers s) vx) (\<lambda>a.
     and_then (getitem (registers s) vy) (\<lambda>b.
     and_then (setitem (registers s) 0xF (if a > b then 1 else 0)) (\<lambda>r1.
     and_then (getitem r1 vx) (\<lambda>a1.
     and_then (getitem r1 vy) (\<lambda>b1.
     and_then (setitem r1 vx (a1 - b1)) (\<lambda>r2.
       Inr (s\<lparr>registers := r2, program_counter := program_counter s + 2\<rparr>)))))))"

definition sub_yx :: "int \<Rightarrow> int \<Rightarrow> chip8 \<Rightarrow> error + chip8" where
  "sub_yx vx vy s =
     and_then (getitem (registers s) vy) (\<lambda>b.
     and_then (getitem (registers s) vx) (\<lambda>a.
     and_then (setitem (registers s) 0xF (if b > a then 1 else 0)) (\<lambda>r1.
     and_then (getitem r1 vy) (\<lambda>b1.
     and_then (getitem r1 vx) (\<lambda>a1.
     and_then (setitem r1 vx (b1 - a1)) (\<lambda>r2.
       Inr (s\<lparr>registers := r2, program_counter := program_counter s + 2\<rparr>)))))))"

text \<open>
  \<open>shift_left\<close>: \<open>registers[0xF] = (registers[vx] >> 7) & 0x1\<close>, then
  \<open>registers[vx] = registers[vx] << 1\<close>. Python's shifts and \<open>&\<close> on ints are those of
  two's complement numbers of unbounded width, as \<open>drop_bit\<close>, \<open>push_bit\<close> and \<open>AND\<close>
  on \<open>int\<close>.
\<close>

definition shift_left :: "int \<Rightarrow> chip8 \<Rightarrow> error + chip8" where
  "shift_left vx s =
     and_then (getitem (registers s) vx) (\<lambda>a.
     and_then (setitem (registers s) 0xF (drop_bit 7 a AND 1)) (\<lambda>r1.
     and_then (getitem r1 vx) (\<lambda>a1.
     and_then (setitem r1 vx (push_bit 1 a1)) (\<lambda>r2.
       Inr (s\<lparr>registers := r2, program_counter := program_counter s + 2\<rparr>)))))"

section \<open>Timers and memory: Fx15, Fx18, Fx33\<close>

definition load_dtx :: "int \<Rightarrow> chip8 \<Rightarrow> error + chip8" where
  "load_dtx vx s =
     and_then (getitem (registers s) vx) (\<lambda>a.
       Inr (s\<lparr>delay_timer := a, program_counter := program_counter s + 2\<rparr>))"

text \<open>\<open>load_stx\<close> assigns \<open>self.stack_pointer\<close>.\<close>

definition load_stx :: "int \<Rightarrow> chip8 \<Rightarrow> error + chip8" where
  "load_stx vx s =
     and_then (getitem (registers s) vx) (\<lambda>a.
       Inr (s\<lparr>stack_pointer := a, program_counter := program_counter s + 2\<rparr>))"

text \<open>
  \<open>load_bcd\<close>: \<open>for i in range(2, -1, -1)\<close> runs \<open>i = 2, 1, 0\<close>; each round stores
  \<open>dec % 10\<close> at \<open>memory[address_register + i]\<close> and then executes \<open>dec /= 10\<close>.
\<close>

fun bcd_loop :: "int list \<Rightarrow> pynum \<Rightarrow> int \<Rightarrow> pynum list \<Rightarrow> error + pynum list" where
  "bcd_loop [] dec a mem = Inr mem"
| "bcd_loop (i # rest) dec a mem =
     and_then (setitem mem (a + i) (mod10 dec)) (\<lambda>mem1.
     and_then (truediv10 dec) (\<lambda>dec1.
       bcd_loop rest dec1 a mem1))"

definition load_bcd :: "int \<Rightarrow> chip8 \<Rightarrow> error + chip8" where
  "load_bcd vx s =
     and_then (getitem (registers s) vx) (\<lambda>dec.
     and_then (bcd_loop [2, 1, 0] (PyInt dec) (address_register s) (memory s)) (\<lambda>mem.
       Inr (s\<lparr>memory := mem, program_counter := program_counter s + 2\<rparr>)))"

section \<open>The cycle\<close>







section \<open>Vocabulary of the properties\<close>

text \<open>Sixteen registers with the given \<open>V0\<close>, \<open>V1\<close> and \<open>VF\<close>, and zero elsewhere.\<close>

definition regs16 :: "int \<Rightarrow> int \<Rightarrow> int \<Rightarrow> int list" where
  "regs16 v0 v1 vf = [v0, v1, 0, 0, 0, 0, 0, 0, 0, 0, 0, 0, 0, 0, 0, vf]"

section \<open>Basic facts\<close>

lemma and_then_Inr [simp]: "and_then (Inr x) f = f x"
  by (simp add: and_then_def)

lemma and_then_Inl [simp]: "and_then (Inl e) f = Inl e"
  by (simp add: and_then_def)

lemma list_position_nonneg:
  "0 \<le> i \<Longrightarrow> i < int n \<Longrightarrow> list_position n i = Inr (nat i)"
  by (simp add: list_position_def)

lemma list_position_above:
  "int n \<le> i \<Longrightarrow> list_position n i = Inl IndexError"
  by (simp add: list_position_def)

lemma getitem_nonneg:
  "0 \<le> i \<Longrightarrow> i < int (length xs) \<Longrightarrow> getitem xs i = Inr (xs ! nat i)"
  by (simp add: getitem_def list_position_nonneg)

lemma setitem_nonneg:
  "0 \<le> i \<Longrightarrow> i < int (length xs) \<Longrightarrow> setitem xs i v = Inr (xs[nat i := v])"
  by (simp add: setitem_def list_position_nonneg)

lemma setitem_above:
  "int (length xs) \<le> i \<Longrightarrow> setitem xs i v = Inl IndexError"
  by (simp add: setitem_def list_position_above)

lemma length_font: "length font = 80"
  by (simp add: font_def)

lemma new_chip8_fields:
  "program_counter new_chip8 = 512"
  "stack_pointer new_chip8 = 0"
  "address_register new_chip8 = 0"
  "registers new_chip8 = replicate 16 0"
  "stack new_chip8 = replicate 16 0"
  "delay_timer new_chip8 = 0"
  "sound_timer new_chip8 = 0"
  "draw_flag new_chip8 = False"
  "display new_chip8 = replicate 32 (replicate 64 0)"
  by (simp_all add: new_chip8_def load_font_def)

lemma memory_new_chip8:
  "memory new_chip8 = map PyInt font @ replicate 4016 (PyInt 0)"
  by (simp add: new_chip8_def load_font_def length_font)

lemma length_memory_new_chip8: "length (memory new_chip8) = 4096"
  by (simp add: memory_new_chip8 length_font)




section \<open>The handlers on well-formed operands\<close>

text \<open>
  With sixteen registers and register indices in \<open>0..15\<close> no subscript raises, and
  each handler is one record update.
\<close>

lemma load_stx_result:
  assumes "0 \<le> vx" "vx < int (length (registers s))"
  shows "load_stx vx s =
     Inr (s\<lparr>stack_pointer := registers s ! nat vx, program_counter := program_counter s + 2\<rparr>)"
  using assms by (simp add: load_stx_def getitem_nonneg)

lemma load_dtx_result:
  assumes "0 \<le> vx" "vx < int (length (registers s))"
  shows "load_dtx vx s =
     Inr (s\<lparr>delay_timer := registers s ! nat vx, program_counter := program_counter s + 2\<rparr>)"
  using assms by (simp add: load_dtx_def getitem_nonneg)

lemma jump_result:
  "nnn \<le> 4028 \<Longrightarrow> jump nnn s = Inr (s\<lparr>program_counter := nnn\<rparr>)"
  "4028 < nnn \<Longrightarrow> jump nnn s = Inl SystemExit"
  by (simp_all add: jump_def)

lemma add_result:
  assumes "0 \<le> vx" "vx < int (length (registers s))"
  shows "add vx kk s =
     Inr (s\<lparr>registers := (registers s)[nat vx := registers s ! nat vx + kk],
            program_counter := program_counter s + 2\<rparr>)"
  using assms by (simp add: add_def getitem_nonneg setitem_nonneg)

lemma add_xy_result:
  assumes "length (registers s) = 16" "0 \<le> vx" "vx < 16" "0 \<le> vy" "vy < 16"
  shows "add_xy vx vy s =
     Inr (s\<lparr>registers := (registers s)
               [15 := (if registers s ! nat vx + registers s ! nat vy > 255 then 1 else 0),
                nat vx := registers s ! nat vx + registers s ! nat vy],
            program_counter := program_counter s + 2\<rparr>)"
  using assms by (simp add: add_xy_def getitem_nonneg setitem_nonneg Let_def)

lemma sub_xy_result:
  assumes "length (registers s) = 16" "0 \<le> vx" "vx < 16" "0 \<le> vy" "vy < 16"
  shows "sub_xy vx vy s =
     Inr (s\<lparr>registers := (registers s)
               [15 := (if registers s ! nat vx > registers s ! nat vy then 1 else 0),
                nat vx :=
                  (registers s)
                    [15 := (if registers s ! nat vx > registers s ! nat vy then 1 else 0)] ! nat vx
                  - (registers s)
                    [15 := (if registers s ! nat vx > registers s ! nat vy then 1 else 0)] ! nat vy],
            program_counter := program_counter s + 2\<rparr>)"
  using assms by (simp add: sub_xy_def getitem_nonneg setitem_nonneg)

lemma sub_yx_result:
  assumes "length (registers s) = 16" "0 \<le> vx" "vx < 16" "0 \<le> vy" "vy < 16"
  shows "sub_yx vx vy s =
     Inr (s\<lparr>registers := (registers s)
               [15 := (if registers s ! nat vy > registers s ! nat vx then 1 else 0),
                nat vx :=
                  (registers s)
                    [15 := (if registers s ! nat vy > registers s ! nat vx then 1 else 0)] ! nat vy
                  - (registers s)
                    [15 := (if registers s ! nat vy > registers s ! nat vx then 1 else 0)] ! nat vx],
            program_counter := program_counter s + 2\<rparr>)"
  using assms by (simp add: sub_yx_def getitem_nonneg setitem_nonneg)

lemma truediv10_int:
  "\<bar>v\<bar> < 10 * (2 ^ 1024 - 2 ^ 970) \<Longrightarrow> truediv10 (PyInt v) = Inr PyFloat"
  by simp

lemma bcd_loop_result:
  assumes "0 \<le> a" "a + 2 < int (length mem)" "\<bar>v\<bar> < 10 * (2 ^ 1024 - 2 ^ 970)"
  shows "bcd_loop [2, 1, 0] (PyInt v) a mem =
     Inr (mem[nat (a + 2) := PyInt (v mod 10), nat (a + 1) := PyFloat, nat a := PyFloat])"
  using assms by (simp add: setitem_nonneg truediv10_int del: truediv10.simps(1))

lemma load_bcd_result:
  assumes "0 \<le> vx" "vx < int (length (registers s))"
    and "0 \<le> address_register s" "address_register s + 2 < int (length (memory s))"
    and "\<bar>registers s ! nat vx\<bar> < 10 * (2 ^ 1024 - 2 ^ 970)"
  shows "load_bcd vx s =
     Inr (s\<lparr>memory := (memory s)
               [nat (address_register s + 2) := PyInt (registers s ! nat vx mod 10),
                nat (address_register s + 1) := PyFloat,
                nat (address_register s) := PyFloat],
            program_counter := program_counter s + 2\<rparr>)"
  using assms by (simp add: load_bcd_def getitem_nonneg bcd_loop_result del: bcd_loop.simps)

section \<open>The cycle and the timers\<close>






section \<open>Claims about the timers\<close>

text \<open>
  Claim C1. \<open>load_stx\<close> (Fx18) is said to set the sound timer to \<open>Vx\<close>, to advance the
  program counter by 2 and to leave the stack pointer unchanged. The handler assigns
  \<open>self.stack_pointer\<close>: with \<open>V0 = 5\<close> on a fresh interpreter the sound timer is
  still 0 afterwards and the stack pointer is 5.
\<close>

theorem load_stx_writes_stack_pointer:
  "load_stx 0 (new_chip8\<lparr>registers := regs16 5 0 0\<rparr>) =
     Inr (new_chip8\<lparr>registers := regs16 5 0 0, stack_pointer := 5, program_counter := 514\<rparr>) \<and>
   sound_timer (new_chip8\<lparr>registers := regs16 5 0 0, stack_pointer := 5, program_counter := 514\<rparr>) = 0 \<and>
   stack_pointer (new_chip8\<lparr>registers := regs16 5 0 0\<rparr>) = 0"
  by (simp add: load_stx_result regs16_def new_chip8_fields)



section \<open>Claims about the arithmetic handlers\<close>

text \<open>
  Claim C3. \<open>add_xy\<close> (8xy4) is said to store \<open>(Vx + Vy) mod 256\<close> in \<open>Vx\<close>. The
  handler stores the sum as it is: \<open>V0 = 200\<close> and \<open>V1 = 100\<close> leave \<open>V0 = 300\<close>,
  where the claim says 44; \<open>VF\<close> is 1 and the program counter 514, as claimed.
\<close>

theorem add_xy_stores_unwrapped_sum:
  "add_xy 0 1 (new_chip8\<lparr>registers := regs16 200 100 0\<rparr>) =
     Inr (new_chip8\<lparr>registers := regs16 300 100 1, program_counter := 514\<rparr>)"
  by (simp add: add_xy_result regs16_def new_chip8_fields)

text \<open>
  Claim C4, as it is written: with destination index \<open>x = 0xF\<close> the flag is in \<open>VF\<close>
  after 8xy4, 8xy5 and 8xy7. The three handlers write the flag first and the result
  last. 8xy4 with \<open>VF = 1\<close>, \<open>V0 = 1\<close>: no carry, and \<open>VF\<close> ends as 2. 8xy5 with
  \<open>VF = 3\<close>, \<open>V0 = 1\<close>: the flag is 1, and \<open>VF\<close> ends as 0. 8xy7 with \<open>VF = 1\<close>,
  \<open>V0 = 3\<close>: the flag is 1, and \<open>VF\<close> ends as 2.
\<close>

theorem flag_overwritten_counterexample:
  "add_xy 15 0 (new_chip8\<lparr>registers := regs16 1 0 1\<rparr>) =
     Inr (new_chip8\<lparr>registers := regs16 1 0 2, program_counter := 514\<rparr>) \<and>
   sub_xy 15 0 (new_chip8\<lparr>registers := regs16 1 0 3\<rparr>) =
     Inr (new_chip8\<lparr>registers := regs16 1 0 0, program_counter := 514\<rparr>) \<and>
   sub_yx 15 0 (new_chip8\<lparr>registers := regs16 3 0 1\<rparr>) =
     Inr (new_chip8\<lparr>registers := regs16 3 0 2, program_counter := 514\<rparr>)"
  by (simp add: add_xy_result sub_xy_result sub_yx_result regs16_def new_chip8_fields)

text \<open>
  Claim C4, amended. In 8xy4, 8xy5 and 8xy7 the flag is computed from the operand
  values before any mutation and written to \<open>VF\<close> first; the store of the result into
  \<open>Vx\<close> is the last register mutation. So for \<open>x \<noteq> 0xF\<close> the value of \<open>VF\<close> after the
  instruction is the flag. For \<open>x = 0xF\<close> it is the stored result: modulo 256 the sum
  \<open>VF + Vy\<close> for 8xy4, and for the subtractions the difference taken with the flag
  just written in the place of \<open>VF\<close> (flag minus \<open>Vy\<close> for 8xy5, \<open>Vy\<close> minus flag for
  8xy7).
\<close>

theorem flag_first_result_last:
  assumes "length (registers s) = 16" "0 \<le> vx" "vx < 16" "0 \<le> vy" "vy < 16"
  shows
    "(\<exists>s'. add_xy vx vy s = Inr s' \<and>
      (if vx = 15
       then registers s' ! 15 mod 256 = (registers s ! 15 + registers s ! nat vy) mod 256
       else registers s' ! 15 =
              (if registers s ! nat vx + registers s ! nat vy > 255 then 1 else 0))) \<and>
     (\<exists>s'. sub_xy vx vy s = Inr s' \<and>
      (if vx = 15
       then registers s' ! 15 mod 256 =
            ((if registers s ! 15 > registers s ! nat vy then 1 else 0)
              - (if vy = 15 then (if registers s ! 15 > registers s ! nat vy then 1 else 0)
                 else registers s ! nat vy)) mod 256
       else registers s' ! 15 = (if registers s ! nat vx > registers s ! nat vy then 1 else 0))) \<and>
     (\<exists>s'. sub_yx vx vy s = Inr s' \<and>
      (if vx = 15
       then registers s' ! 15 mod 256 =
            ((if vy = 15 then (if registers s ! nat vy > registers s ! 15 then 1 else 0)
              else registers s ! nat vy)
              - (if registers s ! nat vy > registers s ! 15 then 1 else 0)) mod 256
       else registers s' ! 15 = (if registers s ! nat vy > registers s ! nat vx then 1 else 0)))"
proof -
  have n: "(nat vx = 15) = (vx = 15)" "(nat vy = 15) = (vy = 15)"
    using assms by auto
  have l: "nat vx < 16" "nat vy < 16"
    using assms by auto
  have a: "\<exists>s'. add_xy vx vy s = Inr s' \<and>
      (if vx = 15
       then registers s' ! 15 mod 256 = (registers s ! 15 + registers s ! nat vy) mod 256
       else registers s' ! 15 =
              (if registers s ! nat vx + registers s ! nat vy > 255 then 1 else 0))"
    using assms(1) l n unfolding add_xy_result [OF assms]
    by (auto simp add: nth_list_update)
  have b: "\<exists>s'. sub_xy vx vy s = Inr s' \<and>
      (if vx = 15
       then registers s' ! 15 mod 256 =
            ((if registers s ! 15 > registers s ! nat vy then 1 else 0)
              - (if vy = 15 then (if registers s ! 15 > registers s ! nat vy then 1 else 0)
                 else registers s ! nat vy)) mod 256
       else registers s' ! 15 = (if registers s ! nat vx > registers s ! nat vy then 1 else 0))"
    using assms(1) l n unfolding sub_xy_result [OF assms]
    by (auto simp add: nth_list_update)
  have c: "\<exists>s'. sub_yx vx vy s = Inr s' \<and>
      (if vx = 15
       then registers s' ! 15 mod 256 =
            ((if vy = 15 then (if registers s ! nat vy > registers s ! 15 then 1 else 0)
              else registers s ! nat vy)
              - (if registers s ! nat vy > registers s ! 15 then 1 else 0)) mod 256
       else registers s' ! 15 = (if registers s ! nat vy > registers s ! nat vx then 1 else 0))"
    using assms(1) l n unfolding sub_yx_result [OF assms]
    by (auto simp add: nth_list_update)
  from a b c show ?thesis by blast
qed

theorem flag_first_result_last_witness:
  "length (registers (new_chip8\<lparr>registers := regs16 7 9 3\<rparr>)) = 16 \<and>
   (\<exists>s'. add_xy 15 1 (new_chip8\<lparr>registers := regs16 7 9 3\<rparr>) = Inr s' \<and>
          registers s' ! 15 mod 256 = 12) \<and>
   (\<exists>s'. sub_xy 15 1 (new_chip8\<lparr>registers := regs16 7 9 3\<rparr>) = Inr s' \<and>
          registers s' ! 15 mod 256 = 247) \<and>
   (\<exists>s'. sub_yx 15 1 (new_chip8\<lparr>registers := regs16 7 9 3\<rparr>) = Inr s' \<and>
          registers s' ! 15 mod 256 = 8) \<and>
   (\<exists>s'. add_xy 0 1 (new_chip8\<lparr>registers := regs16 7 9 3\<rparr>) = Inr s' \<and>
          registers s' ! 15 = 0) \<and>
   (\<exists>s'. sub_xy 0 1 (new_chip8\<lparr>registers := regs16 7 9 3\<rparr>) = Inr s' \<and>
          registers s' ! 15 = 0) \<and>
   (\<exists>s'. sub_yx 0 1 (new_chip8\<lparr>registers := regs16 7 9 3\<rparr>) = Inr s' \<and>
          registers s' ! 15 = 1)"
  using flag_first_result_last [of "new_chip8\<lparr>registers := regs16 7 9 3\<rparr>" 15 1]
    flag_first_result_last [of "new_chip8\<lparr>registers := regs16 7 9 3\<rparr>" 0 1]
  by (simp add: regs16_def)

text \<open>
  Claim C5. Every handler is said to keep the registers within \<open>[0, 255]\<close>, and
  \<open>add\<close> (7xkk), \<open>shift_left\<close> (8xyE) and \<open>sub_xy\<close> (8xy5) are named. None of the three
  reduces its result: \<open>255 + 1\<close> leaves 256, \<open>128 << 1\<close> leaves 256 and \<open>0 - 1\<close>
  leaves \<open>-1\<close> in \<open>V0\<close>.
\<close>

theorem registers_leave_byte_range:
  "add 0 1 (new_chip8\<lparr>registers := regs16 255 0 0\<rparr>) =
     Inr (new_chip8\<lparr>registers := regs16 256 0 0, program_counter := 514\<rparr>) \<and>
   shift_left 0 (new_chip8\<lparr>registers := regs16 128 0 0\<rparr>) =
     Inr (new_chip8\<lparr>registers := regs16 256 0 1, program_counter := 514\<rparr>) \<and>
   sub_xy 0 1 (new_chip8\<lparr>registers := regs16 0 1 0\<rparr>) =
     Inr (new_chip8\<lparr>registers := regs16 (- 1) 1 0, program_counter := 514\<rparr>)"
  by (simp add: add_def shift_left_def sub_xy_def getitem_def setitem_def list_position_def
      regs16_def new_chip8_fields)

section \<open>Claims about control flow\<close>

text \<open>
  Claim C6, as it is written: \<open>ret\<close> at stack pointer 0 reports a fault value to the
  host and does not end the process from within the class. On a fresh interpreter,
  whose stack pointer is 0, \<open>ret\<close> calls \<open>quit()\<close>.
\<close>

theorem ret_underflow_quits_counterexample:
  "stack_pointer new_chip8 = 0 \<and> ret new_chip8 = Inl SystemExit"
  by (simp add: ret_def new_chip8_fields)

text \<open>
  Claim C6, amended. \<open>ret\<close> executed at stack pointer 0 ends the process from within
  the class by \<open>quit()\<close> (SystemExit); it reports no fault value to the host. \<open>call\<close>
  executed at stack pointer 16, on the stack of 16 entries, raises IndexError to its
  caller and does not end the process by \<open>quit()\<close>.
\<close>

theorem stack_faults:
  assumes "stack_pointer s = 0"
    and "stack_pointer t = 16" "length (stack t) = 16"
  shows "ret s = Inl SystemExit \<and> call nnn t = Inl IndexError"
  using assms by (simp add: ret_def call_def setitem_above)

theorem stack_faults_witness:
  "stack_pointer (new_chip8\<lparr>program_counter := 0x2A0\<rparr>) = 0 \<and>
   stack_pointer (new_chip8\<lparr>stack_pointer := 16\<rparr>) = 16 \<and>
   length (stack (new_chip8\<lparr>stack_pointer := 16\<rparr>)) = 16 \<and>
   ret (new_chip8\<lparr>program_counter := 0x2A0\<rparr>) = Inl SystemExit \<and>
   call 0x300 (new_chip8\<lparr>stack_pointer := 16\<rparr>) = Inl IndexError"
  using stack_faults [of "new_chip8\<lparr>program_counter := 0x2A0\<rparr>"
      "new_chip8\<lparr>stack_pointer := 16\<rparr>" "0x300"]
  by (simp add: new_chip8_fields)

text \<open>
  Claim C7. \<open>jump\<close> is said to set the program counter to \<open>nnn\<close> without a fault for
  every \<open>nnn\<close> in \<open>[0, 0xFFF]\<close>. The handler quits for every \<open>nnn\<close> above 4028, so
  the jump to the last address of the memory, \<open>0xFFF\<close>, ends the process.
\<close>

theorem jump_top_of_memory_quits:
  "jump 0xFFF new_chip8 = Inl SystemExit \<and> length (memory new_chip8) = 4096"
  by (simp add: jump_def length_memory_new_chip8)

text \<open>
  Claim C8. With sixteen stack entries and the stack pointer in \<open>[0, 15]\<close>, \<open>call\<close>
  followed by \<open>ret\<close> returns normally for every target \<open>nnn\<close>; afterwards the program
  counter is the one at the call plus 2 and the stack pointer is the one before the
  call. All that differs from the state before the call is that program counter and
  the stack entry the call wrote.
\<close>

theorem call_then_ret:
  assumes "length (stack s) = 16" "0 \<le> stack_pointer s" "stack_pointer s \<le> 15"
  shows "\<exists>s'. and_then (call nnn s) ret = Inr s' \<and>
           program_counter s' = program_counter s + 2 \<and>
           stack_pointer s' = stack_pointer s \<and>
           s' = s\<lparr>stack := (stack s)[nat (stack_pointer s) := program_counter s],
                   program_counter := program_counter s + 2\<rparr>"
  using assms by (simp add: call_def ret_def setitem_nonneg getitem_nonneg)

theorem call_then_ret_witness:
  "length (stack (new_chip8\<lparr>stack_pointer := 15\<rparr>)) = 16 \<and>
   (\<exists>s'. and_then (call 777 (new_chip8\<lparr>stack_pointer := 15\<rparr>)) ret = Inr s' \<and>
          program_counter s' = 514 \<and> stack_pointer s' = 15)"
  using call_then_ret [of "new_chip8\<lparr>stack_pointer := 15\<rparr>" 777]
  by (simp add: new_chip8_fields)

section \<open>Claims about memory\<close>

text \<open>
  Claim C9. \<open>load_bcd\<close> (Fx33) is said to store the hundreds, tens and ones digits of
  \<open>Vx\<close>, integers in \<open>[0, 9]\<close>, at \<open>I\<close>, \<open>I + 1\<close> and \<open>I + 2\<close>. The handler divides
  with \<open>/\<close>: after the ones digit \<open>dec\<close> is a float, and the cells at \<open>I + 1\<close> and \<open>I\<close>
  receive floats. With \<open>V0 = 123\<close> and \<open>I = 0x300\<close> only the cell \<open>0x302\<close> holds a
  digit, 3.
\<close>

theorem load_bcd_stores_floats:
  "load_bcd 0 (new_chip8\<lparr>registers := regs16 123 0 0, address_register := 0x300\<rparr>) =
     Inr (new_chip8\<lparr>registers := regs16 123 0 0, address_register := 0x300,
            memory := (memory new_chip8)[770 := PyInt 3, 769 := PyFloat, 768 := PyFloat],
            program_counter := 514\<rparr>) \<and>
   (memory new_chip8)[770 := PyInt 3, 769 := PyFloat, 768 := PyFloat] ! 768 = PyFloat \<and>
   (memory new_chip8)[770 := PyInt 3, 769 := PyFloat, 768 := PyFloat] ! 769 = PyFloat \<and>
   (memory new_chip8)[770 := PyInt 3, 769 := PyFloat, 768 := PyFloat] ! 770 = PyInt 3"
  by (simp add: load_bcd_result regs16_def new_chip8_fields length_memory_new_chip8)

section \<open>Claims about the skips\<close>

text \<open>
  Claim C10. With sixteen registers and register indices in \<open>0..15\<close>, each of
  \<open>skip_if\<close>, \<open>skip_if_not\<close>, \<open>skip_if_xy\<close> and \<open>skip_if_not_xy\<close> returns the state it
  was given with the program counter alone updated: plus 4 when its test holds, plus
  2 otherwise. Registers, memory, stack, stack pointer, index register, timers,
  display and draw flag are those of the state before.
\<close>

theorem skips_change_only_pc:
  assumes "length (registers s) = 16" "0 \<le> vx" "vx < 16" "0 \<le> vy" "vy < 16"
  shows "skip_if vx kk s =
      Inr (s\<lparr>program_counter :=
             program_counter s + (if registers s ! nat vx = kk then 4 else 2)\<rparr>) \<and>
    skip_if_not vx kk s =
      Inr (s\<lparr>program_counter :=
             program_counter s + (if registers s ! nat vx \<noteq> kk then 4 else 2)\<rparr>) \<and>
    skip_if_xy vx vy s =
      Inr (s\<lparr>program_counter := program_counter s +
             (if registers s ! nat vx = registers s ! nat vy then 4 else 2)\<rparr>) \<and>
    skip_if_not_xy vx vy s =
      Inr (s\<lparr>program_counter := program_counter s +
             (if registers s ! nat vx \<noteq> registers s ! nat vy then 4 else 2)\<rparr>)"
  using assms
  by (simp add: skip_if_def skip_if_not_def skip_if_xy_def skip_if_not_xy_def getitem_nonneg)

theorem skips_change_only_pc_witness:
  "length (registers (new_chip8\<lparr>registers := regs16 7 9 0\<rparr>)) = 16 \<and>
   skip_if 0 7 (new_chip8\<lparr>registers := regs16 7 9 0\<rparr>) =
     Inr (new_chip8\<lparr>registers := regs16 7 9 0, program_counter := 516\<rparr>) \<and>
   skip_if_not 0 7 (new_chip8\<lparr>registers := regs16 7 9 0\<rparr>) =
     Inr (new_chip8\<lparr>registers := regs16 7 9 0, program_counter := 514\<rparr>) \<and>
   skip_if_xy 0 1 (new_chip8\<lparr>registers := regs16 7 9 0\<rparr>) =
     Inr (new_chip8\<lparr>registers := regs16 7 9 0, program_counter := 514\<rparr>) \<and>
   skip_if_not_xy 0 1 (new_chip8\<lparr>registers := regs16 7 9 0\<rparr>) =
     Inr (new_chip8\<lparr>registers := regs16 7 9 0, program_counter := 516\<rparr>)"
  using skips_change_only_pc [of "new_chip8\<lparr>registers := regs16 7 9 0\<rparr>" 0 1 7]
  by (simp add: regs16_def new_chip8_fields)

end
